theory Spec2Isabelle
  imports Main
begin

section \<open>The browser objects the theme code touches\<close>

text \<open>
  The theme logic of the portfolio script exists in two live versions:
  \<^item> \<^verbatim>\<open>src/assets/js/script.js\<close>, function \<^verbatim>\<open>initTheme\<close> (lines 118-163), which keeps
    the choice in \<^verbatim>\<open>localStorage\<close>; its definitions carry the prefix \<open>ls_\<close>;
  \<^item> \<^verbatim>\<open>src/unnamed/part_000\<close>, the last \<^verbatim>\<open>initTheme\<close> of the file (lines 316-364), which
    keeps the choice in \<^verbatim>\<open>sessionStorage\<close> and listens to the system colour scheme; its
    definitions carry the prefix \<open>ss_\<close>.
  An earlier \<^verbatim>\<open>initTheme\<close> in part_000 (lines 25-43) is overridden by the last one and is
  not modelled.

  Both read and write a handful of browser objects. They are gathered in one record:
  \<^item> \<open>body\<close>: the class list of \<^verbatim>\<open>document.body\<close>, or \<open>None\<close> when \<^verbatim>\<open>document.body\<close> is
    \<^verbatim>\<open>null\<close>;
  \<^item> \<open>toggleBtn\<close>: the \<^verbatim>\<open>innerHTML\<close> of the element with id \<^verbatim>\<open>themeToggle\<close>, or \<open>None\<close>
    when \<^verbatim>\<open>getElementById\<close> returns \<^verbatim>\<open>null\<close>;
  \<^item> \<open>localStorage\<close>, \<open>sessionStorage\<close>: the two key-value stores;
  \<^item> \<open>mediaMatches\<close>: \<^verbatim>\<open>matchMedia('(prefers-color-scheme: dark)').matches\<close>;
  \<^item> \<open>clickListener\<close>, \<open>changeListener\<close>: whether \<^verbatim>\<open>initTheme\<close> has registered its click
    listener on the toggle button and its change listener on the media query.
  The body and the toggle button are taken to be two different elements.
\<close>

datatype error = TypeError

record page =
  body :: "string list option"
  toggleBtn :: "string option"
  localStorage :: "string \<rightharpoonup> string"
  sessionStorage :: "string \<rightharpoonup> string"
  mediaMatches :: bool
  clickListener :: bool
  changeListener :: bool

subsection \<open>DOMTokenList\<close>

text \<open>
  \<^verbatim>\<open>classList.add\<close> appends a token that is not there yet, \<^verbatim>\<open>classList.remove\<close> deletes
  every occurrence, \<^verbatim>\<open>classList.toggle\<close> removes a present token and adds an absent one,
  returning whether the token is present afterwards.
\<close>

definition classList_contains :: "string list \<Rightarrow> string \<Rightarrow> bool" where
  "classList_contains cl t = (t \<in> set cl)"

definition classList_add :: "string list \<Rightarrow> string \<Rightarrow> string list" where
  "classList_add cl t = (if t \<in> set cl then cl else cl @ [t])"

definition classList_remove :: "string list \<Rightarrow> string \<Rightarrow> string list" where
  "classList_remove cl t = filter (\<lambda>x. x \<noteq> t) cl"

definition classList_toggle :: "string list \<Rightarrow> string \<Rightarrow> string list \<times> bool" where
  "classList_toggle cl t =
     (if t \<in> set cl then (classList_remove cl t, False) else (classList_add cl t, True))"

subsection \<open>Exceptions\<close>

text \<open>
  Reading \<^verbatim>\<open>body.classList\<close> when \<^verbatim>\<open>body\<close> is \<^verbatim>\<open>null\<close> throws a \<^verbatim>\<open>TypeError\<close>. A function that
  can throw returns \<open>Inl TypeError\<close>; in every function below the throwing statement is
  the first one that would change anything, so a thrown call leaves the page as it was.
\<close>

definition and_then :: "error + 'a \<Rightarrow> ('a \<Rightarrow> error + 'b) \<Rightarrow> error + 'b" where
  "and_then r f = (case r of Inl e \<Rightarrow> Inl e | Inr x \<Rightarrow> f x)"

definition body_classList :: "(string list \<Rightarrow> string list) \<Rightarrow> page \<Rightarrow> error + page" where
  \<comment> \<open>\<^verbatim>\<open>body.classList.op(...)\<close> for an operation \<open>op\<close> on the class list\<close>
  "body_classList f p =
     (case body p of
        None \<Rightarrow> Inl TypeError
      | Some cl \<Rightarrow> Inr (p\<lparr>body := Some (f cl)\<rparr>))"

subsection \<open>Icons and truthiness\<close>

definition sun :: string where
  \<open>sun = ''<i class="fa-solid fa-sun"></i>''\<close>

definition moon :: string where
  \<open>moon = ''<i class="fa-solid fa-moon"></i>''\<close>

definition falsy :: "string option \<Rightarrow> bool" where
  \<comment> \<open>\<^verbatim>\<open>!x\<close> for a value that is a string or \<^verbatim>\<open>null\<close>\<close>
  "falsy x = (case x of None \<Rightarrow> True | Some s \<Rightarrow> s = [])"

definition dark_theme :: "page \<Rightarrow> bool" where
  \<comment> \<open>the styling flag: \<^verbatim>\<open>dark-theme\<close> is among the classes of the body\<close>
  "dark_theme p = (case body p of None \<Rightarrow> False | Some cl \<Rightarrow> classList_contains cl ''dark-theme'')"

section \<open>The sessionStorage version (part\_000, lines 316-364)\<close>

definition applyTheme :: "bool \<Rightarrow> page \<Rightarrow> error + page" where
  "applyTheme isDark p =
     (if isDark then
        and_then (body_classList (\<lambda>cl. classList_add cl ''dark-theme'') p)
          (\<lambda>p1. Inr (if toggleBtn p1 \<noteq> None then p1\<lparr>toggleBtn := Some sun\<rparr> else p1))
      else
        and_then (body_classList (\<lambda>cl. classList_remove cl ''dark-theme'') p)
          (\<lambda>p1. Inr (if toggleBtn p1 \<noteq> None then p1\<lparr>toggleBtn := Some moon\<rparr> else p1)))"

definition ss_resolve :: "page \<Rightarrow> error + page" where
  \<comment> \<open>lines 333-342\<close>
  "ss_resolve p =
     (let sessionPreference = sessionStorage p ''theme'' in
      if sessionPreference = Some ''dark'' then applyTheme True p
      else if sessionPreference = Some ''light'' then applyTheme False p
      else applyTheme (mediaMatches p) p)"

definition ss_onChange :: "bool \<Rightarrow> page \<Rightarrow> error + page" where
  \<comment> \<open>the media query's change listener, lines 346-350; the argument is \<^verbatim>\<open>e.matches\<close>\<close>
  "ss_onChange matches p =
     (if falsy (sessionStorage p ''theme'') then applyTheme matches p else Inr p)"

definition ss_onClick :: "page \<Rightarrow> error + page" where
  \<comment> \<open>the toggle button's click listener, lines 354-362\<close>
  "ss_onClick p =
     (case body p of
        None \<Rightarrow> Inl TypeError
      | Some cl \<Rightarrow>
          let isDarkNow = classList_contains cl ''dark-theme'';
              newMode = \<not> isDarkNow
          in and_then (applyTheme newMode p)
               (\<lambda>p1. Inr (p1\<lparr>sessionStorage :=
                  (sessionStorage p1)(''theme'' \<mapsto> (if newMode then ''dark'' else ''light''))\<rparr>)))"

definition ss_initTheme :: "page \<Rightarrow> error + page" where
  "ss_initTheme p =
     and_then (ss_resolve p)
       (\<lambda>p1. let p2 = p1\<lparr>changeListener := True\<rparr>
             in Inr (if toggleBtn p2 \<noteq> None then p2\<lparr>clickListener := True\<rparr> else p2))"

section \<open>The localStorage version (script.js, lines 118-163)\<close>

definition updateIcon :: "bool \<Rightarrow> page \<Rightarrow> page" where
  \<comment> \<open>lines 157-162\<close>
  "updateIcon isDark p =
     (if toggleBtn p = None then p
      else p\<lparr>toggleBtn := Some (if isDark then sun else moon)\<rparr>)"

definition ls_resolve :: "page \<Rightarrow> error + page" where
  \<comment> \<open>lines 119-142\<close>
  "ls_resolve p =
     (let savedTheme = localStorage p ''theme'';
          systemPrefersDark = mediaMatches p
      in
      if savedTheme = Some ''dark'' then
        and_then (body_classList (\<lambda>cl. classList_add cl ''dark-theme'') p)
          (\<lambda>p1. Inr (updateIcon True p1))
      else if savedTheme = Some ''light'' then
        and_then (body_classList (\<lambda>cl. classList_remove cl ''dark-theme'') p)
          (\<lambda>p1. Inr (updateIcon False p1))
      else if systemPrefersDark then
        and_then (body_classList (\<lambda>cl. classList_add cl ''dark-theme'') p)
          (\<lambda>p1. Inr (updateIcon True p1))
      else Inr (updateIcon False p))"

definition ls_onClick :: "page \<Rightarrow> error + page" where
  \<comment> \<open>the toggle button's click listener, lines 146-153\<close>
  "ls_onClick p =
     and_then (body_classList (\<lambda>cl. fst (classList_toggle cl ''dark-theme'')) p)
       (\<lambda>p1. let isDark = dark_theme p1;
                 p2 = p1\<lparr>localStorage :=
                        (localStorage p1)(''theme'' \<mapsto> (if isDark then ''dark'' else ''light''))\<rparr>
             in Inr (updateIcon isDark p2))"

definition ls_initTheme :: "page \<Rightarrow> error + page" where
  "ls_initTheme p =
     and_then (ls_resolve p)
       (\<lambda>p1. Inr (if toggleBtn p1 \<noteq> None then p1\<lparr>clickListener := True\<rparr> else p1))"

section \<open>Events\<close>

text \<open>
  The browser runs a listener only once it is registered. A click reaches the toggle
  button's listener; a change of the system colour scheme updates the media query and
  reaches its listener. The localStorage version registers no change listener.
\<close>

datatype event = Click | Change bool

fun ss_dispatch :: "event \<Rightarrow> page \<Rightarrow> error + page" where
  "ss_dispatch Click p = (if clickListener p then ss_onClick p else Inr p)"
| "ss_dispatch (Change m) p =
     (let p1 = p\<lparr>mediaMatches := m\<rparr>
      in if changeListener p1 then ss_onChange m p1 else Inr p1)"

fun ls_dispatch :: "event \<Rightarrow> page \<Rightarrow> error + page" where
  "ls_dispatch Click p = (if clickListener p then ls_onClick p else Inr p)"
| "ls_dispatch (Change m) p = Inr (p\<lparr>mediaMatches := m\<rparr>)"

section \<open>Observations and example pages\<close>

text \<open>
  The page a call leaves behind: the new page when the call returns, the old one when it
  throws. The two stores of a page, and what is visible of an outcome: the classes of the
  body and the icon of the button, or the exception.
\<close>

definition after :: "page \<Rightarrow> error + page \<Rightarrow> page" where
  "after p r = (case r of Inl e \<Rightarrow> p | Inr q \<Rightarrow> q)"

definition stores :: "page \<Rightarrow> (string \<rightharpoonup> string) \<times> (string \<rightharpoonup> string)" where
  "stores p = (localStorage p, sessionStorage p)"

definition applied :: "error + page \<Rightarrow> error + string list option \<times> string option" where
  "applied r = map_sum id (\<lambda>q. (body q, toggleBtn q)) r"

definition fresh_page :: page where
  \<comment> \<open>a page with an unstyled body and an empty toggle button, nothing stored, light system\<close>
  "fresh_page = \<lparr>body = Some [], toggleBtn = Some [], localStorage = Map.empty,
     sessionStorage = Map.empty, mediaMatches = False,
     clickListener = False, changeListener = False\<rparr>"

definition chosen_light_page :: page where
  \<comment> \<open>the user has chosen light in this session\<close>
  "chosen_light_page = fresh_page\<lparr>sessionStorage := [''theme'' \<mapsto> ''light'']\<rparr>"

definition bare_page :: page where
  \<comment> \<open>a page without toggle button, on a dark system\<close>
  "bare_page = fresh_page\<lparr>toggleBtn := None, mediaMatches := True\<rparr>"

definition flagged_page :: page where
  \<comment> \<open>a page whose markup already carries the class: \<^verbatim>\<open><body class="dark-theme">\<close>\<close>
  "flagged_page = fresh_page\<lparr>body := Some [''dark-theme'']\<rparr>"

definition blue_flagged_page :: page where
  \<comment> \<open>the same page with a malformed value in both stores\<close>
  "blue_flagged_page =
     flagged_page\<lparr>localStorage := [''theme'' \<mapsto> ''blue''],
                  sessionStorage := [''theme'' \<mapsto> ''blue'']\<rparr>"

section \<open>Basic facts\<close>

lemmas cl_defs =
  classList_contains_def classList_add_def classList_remove_def classList_toggle_def

lemma sun_neq_moon: "sun \<noteq> moon"
  by (simp add: sun_def moon_def)

subsection \<open>Class lists\<close>

lemma add_add: "classList_add (classList_add cl t) t = classList_add cl t"
  by (simp add: classList_add_def)

lemma remove_remove: "classList_remove (classList_remove cl t) t = classList_remove cl t"
  by (simp add: classList_remove_def)

lemma in_add: "t \<in> set (classList_add cl t)"
  by (simp add: classList_add_def)

lemma notin_remove: "t \<notin> set (classList_remove cl t)"
  by (simp add: classList_remove_def)

lemma remove_fresh: "t \<notin> set cl \<Longrightarrow> classList_remove cl t = cl"
  by (auto simp: classList_remove_def filter_id_conv)

lemma remove_add_fresh: "t \<notin> set cl \<Longrightarrow> classList_remove (classList_add cl t) t = cl"
  by (auto simp: classList_add_def classList_remove_def filter_id_conv)

lemma dark_theme_Some: "body p = Some cl \<Longrightarrow> dark_theme p = (''dark-theme'' \<in> set cl)"
  by (simp add: dark_theme_def classList_contains_def)

subsection \<open>Each function on a page with and without a body\<close>

lemma applyTheme_Some:
  "body p = Some cl \<Longrightarrow>
   applyTheme s p =
     Inr (p\<lparr>body := Some (if s then classList_add cl ''dark-theme''
                             else classList_remove cl ''dark-theme''),
           toggleBtn := (if toggleBtn p = None then None
                         else Some (if s then sun else moon))\<rparr>)"
  by (cases "toggleBtn p") (auto simp: applyTheme_def and_then_def body_classList_def)

lemma applyTheme_None: "body p = None \<Longrightarrow> applyTheme s p = Inl TypeError"
  by (simp add: applyTheme_def and_then_def body_classList_def)

lemma ss_resolve_eq:
  "ss_resolve p =
     applyTheme (sessionStorage p ''theme'' = Some ''dark''
                 \<or> sessionStorage p ''theme'' \<noteq> Some ''light'' \<and> mediaMatches p) p"
  by (simp add: ss_resolve_def Let_def)

lemma ss_onClick_Some:
  "body p = Some cl \<Longrightarrow>
   ss_onClick p =
     Inr (p\<lparr>body := Some (if ''dark-theme'' \<in> set cl then classList_remove cl ''dark-theme''
                             else classList_add cl ''dark-theme''),
           toggleBtn := (if toggleBtn p = None then None
                         else Some (if ''dark-theme'' \<in> set cl then moon else sun)),
           sessionStorage := (sessionStorage p)(''theme'' \<mapsto>
                         (if ''dark-theme'' \<in> set cl then ''light'' else ''dark''))\<rparr>)"
  by (simp add: ss_onClick_def applyTheme_Some and_then_def classList_contains_def Let_def)

lemma ss_onClick_None: "body p = None \<Longrightarrow> ss_onClick p = Inl TypeError"
  by (simp add: ss_onClick_def)

lemma ls_resolve_Some:
  "body p = Some cl \<Longrightarrow>
   ls_resolve p =
     Inr (if localStorage p ''theme'' = Some ''dark''
            then updateIcon True (p\<lparr>body := Some (classList_add cl ''dark-theme'')\<rparr>)
          else if localStorage p ''theme'' = Some ''light''
            then updateIcon False (p\<lparr>body := Some (classList_remove cl ''dark-theme'')\<rparr>)
          else if mediaMatches p
            then updateIcon True (p\<lparr>body := Some (classList_add cl ''dark-theme'')\<rparr>)
          else updateIcon False p)"
  by (simp add: ls_resolve_def body_classList_def and_then_def Let_def)

lemma ls_resolve_None:
  "body p = None \<Longrightarrow>
   ls_resolve p =
     (if localStorage p ''theme'' = Some ''dark'' \<or> localStorage p ''theme'' = Some ''light''
         \<or> mediaMatches p
      then Inl TypeError else Inr (updateIcon False p))"
  by (simp add: ls_resolve_def body_classList_def and_then_def Let_def)

lemma ls_onClick_Some:
  "body p = Some cl \<Longrightarrow>
   ls_onClick p =
     Inr (p\<lparr>body := Some (if ''dark-theme'' \<in> set cl then classList_remove cl ''dark-theme''
                             else classList_add cl ''dark-theme''),
           toggleBtn := (if toggleBtn p = None then None
                         else Some (if ''dark-theme'' \<in> set cl then moon else sun)),
           localStorage := (localStorage p)(''theme'' \<mapsto>
                         (if ''dark-theme'' \<in> set cl then ''light'' else ''dark''))\<rparr>)"
  by (cases "toggleBtn p")
     (auto simp: ls_onClick_def body_classList_def and_then_def cl_defs dark_theme_def
        updateIcon_def Let_def)

lemma ls_onClick_None: "body p = None \<Longrightarrow> ls_onClick p = Inl TypeError"
  by (simp add: ls_onClick_def body_classList_def and_then_def)

subsection \<open>The example pages\<close>

lemma fresh_page_fields:
  "body fresh_page = Some []" "toggleBtn fresh_page = Some []"
  "localStorage fresh_page = Map.empty" "sessionStorage fresh_page = Map.empty"
  "\<not> mediaMatches fresh_page" "\<not> clickListener fresh_page" "\<not> dark_theme fresh_page"
  by (simp_all add: fresh_page_def dark_theme_def classList_contains_def)

lemma chosen_light_page_fields:
  "body chosen_light_page = Some []"
  "sessionStorage chosen_light_page ''theme'' = Some ''light''"
  by (simp_all add: chosen_light_page_def fresh_page_def)

lemma bare_page_fields:
  "body bare_page = Some []" "toggleBtn bare_page = None"
  "localStorage bare_page = Map.empty" "sessionStorage bare_page = Map.empty"
  "mediaMatches bare_page" "\<not> clickListener bare_page" "\<not> dark_theme bare_page"
  by (simp_all add: bare_page_def fresh_page_def dark_theme_def classList_contains_def)

lemma flagged_page_fields:
  "body flagged_page = Some [''dark-theme'']" "toggleBtn flagged_page = Some []"
  "localStorage flagged_page = Map.empty" "sessionStorage flagged_page = Map.empty"
  "\<not> mediaMatches flagged_page" "dark_theme flagged_page"
  by (simp_all add: flagged_page_def fresh_page_def dark_theme_def classList_contains_def)

section \<open>Initial resolution\<close>

text \<open>
  The sessionStorage version resolves as the specification says, on every page that has
  a body: the body carries the flag afterwards exactly when the stored value is
  \<^verbatim>\<open>"dark"\<close>, or nothing is stored and the system prefers dark.
\<close>

lemma ss_resolve_dark_iff:
  assumes "body p = Some cl"
    and "sessionStorage p ''theme'' \<in> {None, Some ''dark'', Some ''light''}"
  shows "\<exists>q. ss_resolve p = Inr q
           \<and> dark_theme q = (sessionStorage p ''theme'' = Some ''dark''
                \<or> sessionStorage p ''theme'' = None \<and> mediaMatches p)"
  using assms
  by (auto simp: ss_resolve_eq applyTheme_Some dark_theme_Some in_add notin_remove)

text \<open>
  The localStorage version does so only when the body does not carry the flag before the
  call: its last branch (\<^verbatim>\<open>// Default to Light\<close>, script.js line 139-142) sets the icon
  and leaves the classes of the body alone, where the branch for a stored \<^verbatim>\<open>"light"\<close>
  (line 133) removes the class.
\<close>

lemma ls_resolve_dark_iff:
  assumes "body p = Some cl" and "\<not> dark_theme p"
    and "localStorage p ''theme'' \<in> {None, Some ''dark'', Some ''light''}"
  shows "\<exists>q. ls_resolve p = Inr q
           \<and> dark_theme q = (localStorage p ''theme'' = Some ''dark''
                \<or> localStorage p ''theme'' = None \<and> mediaMatches p)"
  using assms
  by (auto simp: ls_resolve_Some updateIcon_def dark_theme_Some in_add notin_remove)

text \<open>
  Claim C1. At page load the resolved theme is dark exactly when the stored preference is
  \<^verbatim>\<open>"dark"\<close>, or no preference is stored and the system prefers dark. On a page whose body
  already carries the class, with nothing stored and a light system, the localStorage
  version leaves the body dark (and shows the moon); the sessionStorage version makes the
  same page light.
\<close>

theorem ls_default_branch_keeps_dark_flag:
  "localStorage flagged_page ''theme'' = None
   \<and> \<not> mediaMatches flagged_page
   \<and> ls_resolve flagged_page = Inr (flagged_page\<lparr>toggleBtn := Some moon\<rparr>)
   \<and> dark_theme (flagged_page\<lparr>toggleBtn := Some moon\<rparr>)
   \<and> ss_resolve flagged_page = Inr (flagged_page\<lparr>body := Some [], toggleBtn := Some moon\<rparr>)
   \<and> \<not> dark_theme (flagged_page\<lparr>body := Some [], toggleBtn := Some moon\<rparr>)"
  by (simp add: flagged_page_fields ls_resolve_Some ss_resolve_eq applyTheme_Some
        updateIcon_def dark_theme_def cl_defs)

section \<open>The toggle\<close>

text \<open>
  Claim C2. Whatever theme is applied, one run of the click listener of the toggle button
  switches the flag of the body to its negation and stores the matching string under the
  key \<^verbatim>\<open>theme\<close>: \<^verbatim>\<open>"dark"\<close> when the body is dark afterwards, \<^verbatim>\<open>"light"\<close> otherwise. Both
  versions do so, each in its own store.
\<close>

theorem toggle_flips_and_stores:
  assumes "body p = Some cl"
  shows "(\<exists>q. ss_onClick p = Inr q \<and> dark_theme q = (\<not> dark_theme p)
              \<and> sessionStorage q ''theme'' = Some (if dark_theme q then ''dark'' else ''light''))
       \<and> (\<exists>q. ls_onClick p = Inr q \<and> dark_theme q = (\<not> dark_theme p)
              \<and> localStorage q ''theme'' = Some (if dark_theme q then ''dark'' else ''light''))"
  using assms
  by (simp add: ss_onClick_Some ls_onClick_Some dark_theme_Some in_add notin_remove)

theorem toggle_flips_and_stores_witness:
  "body fresh_page = Some []
   \<and> (\<exists>q. ss_onClick fresh_page = Inr q \<and> dark_theme q = (\<not> dark_theme fresh_page)
          \<and> sessionStorage q ''theme'' = Some (if dark_theme q then ''dark'' else ''light''))
   \<and> (\<exists>q. ls_onClick fresh_page = Inr q \<and> dark_theme q = (\<not> dark_theme fresh_page)
          \<and> localStorage q ''theme'' = Some (if dark_theme q then ''dark'' else ''light''))
   \<and> ss_onClick fresh_page =
       Inr (fresh_page\<lparr>body := Some [''dark-theme''], toggleBtn := Some sun,
              sessionStorage := [''theme'' \<mapsto> ''dark'']\<rparr>)"
proof -
  have b: "body fresh_page = Some []" by (rule fresh_page_fields)
  have c: "ss_onClick fresh_page =
       Inr (fresh_page\<lparr>body := Some [''dark-theme''], toggleBtn := Some sun,
              sessionStorage := [''theme'' \<mapsto> ''dark'']\<rparr>)"
    by (simp add: ss_onClick_Some [OF b] fresh_page_fields classList_add_def)
  from b c toggle_flips_and_stores [OF b] show ?thesis by blast
qed

text \<open>
  Claim C7. From a light page, whatever is stored, two clicks in a row end on a light page
  (the class list of the body is the one before the clicks) with \<^verbatim>\<open>"light"\<close> stored.
\<close>

theorem toggle_twice_from_light:
  assumes "body p = Some cl" and "\<not> dark_theme p"
  shows "(\<exists>q. and_then (ss_onClick p) ss_onClick = Inr q \<and> \<not> dark_theme q \<and> body q = body p
              \<and> sessionStorage q ''theme'' = Some ''light'')
       \<and> (\<exists>q. and_then (ls_onClick p) ls_onClick = Inr q \<and> \<not> dark_theme q \<and> body q = body p
              \<and> localStorage q ''theme'' = Some ''light'')"
proof -
  from assms have fresh: "''dark-theme'' \<notin> set cl" by (simp add: dark_theme_Some)
  show ?thesis
    using assms(1) fresh
    by (simp add: ss_onClick_Some ls_onClick_Some and_then_def dark_theme_Some in_add
          remove_add_fresh)
qed

theorem toggle_twice_from_light_witness:
  "body fresh_page = Some [] \<and> \<not> dark_theme fresh_page
   \<and> (\<exists>q. and_then (ss_onClick fresh_page) ss_onClick = Inr q \<and> \<not> dark_theme q
          \<and> body q = body fresh_page \<and> sessionStorage q ''theme'' = Some ''light'')
   \<and> (\<exists>q. and_then (ls_onClick fresh_page) ls_onClick = Inr q \<and> \<not> dark_theme q
          \<and> body q = body fresh_page \<and> localStorage q ''theme'' = Some ''light'')"
proof -
  have b: "body fresh_page = Some []" and l: "\<not> dark_theme fresh_page"
    by (rule fresh_page_fields)+
  from b l toggle_twice_from_light [OF b l] show ?thesis by blast
qed

section \<open>Applying a theme\<close>

text \<open>
  Claim C6. Applying a theme state twice in a row leaves the page exactly as applying it
  once: the class list of the body and the icon of the toggle button are the same. This
  holds for \<open>applyTheme\<close> of the sessionStorage version (a throw of the first call included:
  then the second call never runs) and for \<open>updateIcon\<close> of the localStorage version.
\<close>

theorem applyTheme_idempotent:
  "and_then (applyTheme s p) (applyTheme s) = applyTheme s p
   \<and> updateIcon s (updateIcon s p) = updateIcon s p"
proof
  show "and_then (applyTheme s p) (applyTheme s) = applyTheme s p"
  proof (cases "body p")
    case None
    then show ?thesis by (simp add: applyTheme_None and_then_def)
  next
    case (Some cl)
    then show ?thesis
      by (simp add: applyTheme_Some and_then_def add_add remove_remove)
  qed
  show "updateIcon s (updateIcon s p) = updateIcon s p"
    by (simp add: updateIcon_def)
qed

text \<open>
  Wherever flag and icon are set together, the toggle button offers the opposite theme:
  it shows the sun exactly when the page is dark and the moon exactly when it is light.
  That is so after \<open>applyTheme\<close> and after a click in either version; \<open>updateIcon\<close> shows
  the sun exactly when the state it is given is dark.
\<close>

lemma icon_offers_opposite_theme:
  assumes "body p = Some cl" and "toggleBtn p = Some h"
  shows "(\<exists>q. applyTheme s p = Inr q \<and> dark_theme q = s
              \<and> (toggleBtn q = Some sun) = dark_theme q
              \<and> (toggleBtn q = Some moon) = (\<not> dark_theme q))
       \<and> (toggleBtn (updateIcon s p) = Some sun) = s
       \<and> (toggleBtn (updateIcon s p) = Some moon) = (\<not> s)
       \<and> (\<exists>q. ss_onClick p = Inr q \<and> (toggleBtn q = Some sun) = dark_theme q
              \<and> (toggleBtn q = Some moon) = (\<not> dark_theme q))
       \<and> (\<exists>q. ls_onClick p = Inr q \<and> (toggleBtn q = Some sun) = dark_theme q
              \<and> (toggleBtn q = Some moon) = (\<not> dark_theme q))"
  using assms sun_neq_moon
  by (auto simp: applyTheme_Some ss_onClick_Some ls_onClick_Some updateIcon_def
        dark_theme_Some in_add notin_remove)

text \<open>
  The page-load path of the localStorage version also holds to it as long as the body
  does not carry the class beforehand.
\<close>

lemma ls_resolve_icon_agrees:
  assumes "body p = Some cl" and "toggleBtn p = Some h" and "\<not> dark_theme p"
  shows "\<exists>q. ls_resolve p = Inr q \<and> (toggleBtn q = Some sun) = dark_theme q
           \<and> (toggleBtn q = Some moon) = (\<not> dark_theme q)"
  using assms sun_neq_moon
  by (auto simp: ls_resolve_Some updateIcon_def dark_theme_Some in_add notin_remove)

text \<open>
  Claim C9. After a theme is applied the toggle button shows the sun exactly when the
  page is dark and the moon exactly when it is light. At page load the localStorage
  version breaks this on a page whose body already carries the class, with nothing
  stored and a light system: \<^verbatim>\<open>initTheme\<close> returns a page that is dark and shows the moon.
\<close>

theorem ls_initTheme_dark_page_shows_moon:
  "ls_initTheme flagged_page =
     Inr (flagged_page\<lparr>toggleBtn := Some moon, clickListener := True\<rparr>)
   \<and> dark_theme (flagged_page\<lparr>toggleBtn := Some moon, clickListener := True\<rparr>)
   \<and> toggleBtn (flagged_page\<lparr>toggleBtn := Some moon, clickListener := True\<rparr>) = Some moon
   \<and> toggleBtn (flagged_page\<lparr>toggleBtn := Some moon, clickListener := True\<rparr>) \<noteq> Some sun"
  using sun_neq_moon
  by (auto simp: flagged_page_fields ls_initTheme_def ls_resolve_Some updateIcon_def
        and_then_def dark_theme_def cl_defs)

section \<open>A change of the system colour scheme\<close>

text \<open>
  Claim C3, as the code has it. In the sessionStorage version, when the system colour
  scheme changes and nothing is stored under \<^verbatim>\<open>theme\<close>, the change listener applies dark
  for \<^verbatim>\<open>matches = true\<close> and light for \<^verbatim>\<open>false\<close> (flag and, where there is a button,
  icon); when a preference is stored (any string that is not empty, so \<^verbatim>\<open>"dark"\<close> and
  \<^verbatim>\<open>"light"\<close>), the listener leaves the page as it is. \<^verbatim>\<open>initTheme\<close> of that version
  registers the listener, so that a change event runs it. The localStorage version
  registers no change listener: there a change event touches neither the body, nor the
  button, nor the stores, whether a preference is stored or not.
\<close>

theorem system_change_respects_stored_choice:
  assumes "body p = Some cl"
  shows "(sessionStorage p ''theme'' = None \<longrightarrow>
            (\<exists>q. ss_onChange matches p = Inr q \<and> dark_theme q = matches
               \<and> (toggleBtn p \<noteq> None \<longrightarrow> toggleBtn q = Some (if matches then sun else moon))))
       \<and> (\<forall>v. sessionStorage p ''theme'' = Some v \<longrightarrow> v \<noteq> [] \<longrightarrow> ss_onChange matches p = Inr p)
       \<and> (\<exists>q. ss_initTheme p = Inr q \<and> changeListener q
              \<and> ss_dispatch (Change matches) q
                   = ss_onChange matches (q\<lparr>mediaMatches := matches\<rparr>))
       \<and> (\<exists>q. ls_initTheme p = Inr q \<and> changeListener q = changeListener p
              \<and> ls_dispatch (Change matches) q = Inr (q\<lparr>mediaMatches := matches\<rparr>))"
proof (intro conjI)
  show "sessionStorage p ''theme'' = None \<longrightarrow>
            (\<exists>q. ss_onChange matches p = Inr q \<and> dark_theme q = matches
               \<and> (toggleBtn p \<noteq> None \<longrightarrow> toggleBtn q = Some (if matches then sun else moon)))"
    using assms
    by (auto simp: ss_onChange_def falsy_def applyTheme_Some dark_theme_Some in_add
          notin_remove)
  show "\<forall>v. sessionStorage p ''theme'' = Some v \<longrightarrow> v \<noteq> [] \<longrightarrow> ss_onChange matches p = Inr p"
    by (simp add: ss_onChange_def falsy_def)
  show "\<exists>q. ss_initTheme p = Inr q \<and> changeListener q
              \<and> ss_dispatch (Change matches) q
                   = ss_onChange matches (q\<lparr>mediaMatches := matches\<rparr>)"
    using assms
    by (simp add: ss_initTheme_def ss_resolve_eq applyTheme_Some and_then_def Let_def)
  show "\<exists>q. ls_initTheme p = Inr q \<and> changeListener q = changeListener p
              \<and> ls_dispatch (Change matches) q = Inr (q\<lparr>mediaMatches := matches\<rparr>)"
    using assms
    by (simp add: ls_initTheme_def ls_resolve_Some and_then_def updateIcon_def)
qed

theorem system_change_respects_stored_choice_witness:
  "body fresh_page = Some [] \<and> sessionStorage fresh_page ''theme'' = None
   \<and> (\<exists>q. ss_onChange True fresh_page = Inr q \<and> dark_theme q \<and> toggleBtn q = Some sun)
   \<and> body chosen_light_page = Some []
   \<and> sessionStorage chosen_light_page ''theme'' = Some ''light''
   \<and> ss_onChange True chosen_light_page = Inr chosen_light_page
   \<and> (\<exists>q. ss_initTheme fresh_page = Inr q \<and> changeListener q
          \<and> ss_dispatch (Change True) q = ss_onChange True (q\<lparr>mediaMatches := True\<rparr>))
   \<and> (\<exists>q. ls_initTheme fresh_page = Inr q \<and> changeListener q = changeListener fresh_page
          \<and> ls_dispatch (Change True) q = Inr (q\<lparr>mediaMatches := True\<rparr>))"
proof -
  have b: "body fresh_page = Some []" and t: "toggleBtn fresh_page = Some []"
    and n: "sessionStorage fresh_page ''theme'' = None"
    by (simp_all add: fresh_page_fields)
  have b': "body chosen_light_page = Some []"
    and l: "sessionStorage chosen_light_page ''theme'' = Some ''light''"
    by (rule chosen_light_page_fields)+
  note fresh = system_change_respects_stored_choice [OF b, of True]
  from fresh n t
  have 1: "\<exists>q. ss_onChange True fresh_page = Inr q \<and> dark_theme q \<and> toggleBtn q = Some sun"
    by auto
  from system_change_respects_stored_choice [OF b', of True] l
  have 2: "ss_onChange True chosen_light_page = Inr chosen_light_page"
    by auto
  from b n 1 b' l 2 fresh show ?thesis by blast
qed

text \<open>
  Claim C3, as stated, asks that a change event with nothing stored apply the new system
  theme. In the localStorage version it does not: after \<^verbatim>\<open>initTheme\<close> on a fresh page
  with nothing stored, a change of the system to dark leaves the page light, showing the
  moon.
\<close>

theorem ls_ignores_system_change_counterexample:
  "localStorage fresh_page ''theme'' = None
   \<and> ls_initTheme fresh_page =
       Inr (fresh_page\<lparr>toggleBtn := Some moon, clickListener := True\<rparr>)
   \<and> ls_dispatch (Change True) (fresh_page\<lparr>toggleBtn := Some moon, clickListener := True\<rparr>)
       = Inr (fresh_page\<lparr>toggleBtn := Some moon, clickListener := True,
                mediaMatches := True\<rparr>)
   \<and> \<not> dark_theme (fresh_page\<lparr>toggleBtn := Some moon, clickListener := True,
                mediaMatches := True\<rparr>)
   \<and> toggleBtn (fresh_page\<lparr>toggleBtn := Some moon, clickListener := True,
                mediaMatches := True\<rparr>) = Some moon"
  by (simp add: fresh_page_fields ls_initTheme_def ls_resolve_Some updateIcon_def
        and_then_def dark_theme_def cl_defs)

text \<open>
  The listener tests the stored value for truthiness, so an empty string stored under
  \<^verbatim>\<open>theme\<close> counts as no preference. The script itself only ever stores \<^verbatim>\<open>"dark"\<close> or
  \<^verbatim>\<open>"light"\<close>.
\<close>

lemma empty_string_counts_as_absent:
  "sessionStorage p ''theme'' = Some [] \<Longrightarrow> ss_onChange matches p = applyTheme matches p"
  by (simp add: ss_onChange_def falsy_def)

section \<open>Who writes the stores\<close>

lemma stores_applyTheme: "stores (after p (applyTheme s p)) = stores p"
  by (cases "body p") (simp_all add: applyTheme_Some applyTheme_None after_def stores_def)

lemma stores_updateIcon: "stores (updateIcon s p) = stores p"
  by (simp add: updateIcon_def stores_def)

lemma stores_ss_resolve: "stores (after p (ss_resolve p)) = stores p"
  by (simp add: ss_resolve_eq stores_applyTheme)

lemma stores_ss_onChange: "stores (after p (ss_onChange m p)) = stores p"
  by (simp add: ss_onChange_def stores_applyTheme) (simp add: after_def)

lemma stores_ss_initTheme: "stores (after p (ss_initTheme p)) = stores p"
  by (cases "body p")
     (simp_all add: ss_initTheme_def ss_resolve_eq applyTheme_Some applyTheme_None
        and_then_def after_def stores_def Let_def)

lemma stores_ls_resolve: "stores (after p (ls_resolve p)) = stores p"
  by (cases "body p")
     (simp_all add: ls_resolve_Some ls_resolve_None after_def stores_def updateIcon_def)

lemma stores_ls_initTheme: "stores (after p (ls_initTheme p)) = stores p"
  by (cases "body p")
     (simp_all add: ls_initTheme_def ls_resolve_Some ls_resolve_None and_then_def after_def
        stores_def updateIcon_def)

lemma store_ss_onClick:
  "localStorage (after p (ss_onClick p)) = localStorage p
   \<and> dom (sessionStorage p) \<subseteq> dom (sessionStorage (after p (ss_onClick p)))"
  by (cases "body p") (auto simp: ss_onClick_Some ss_onClick_None after_def)

lemma store_ls_onClick:
  "sessionStorage (after p (ls_onClick p)) = sessionStorage p
   \<and> dom (localStorage p) \<subseteq> dom (localStorage (after p (ls_onClick p)))"
  by (cases "body p") (auto simp: ls_onClick_Some ls_onClick_None after_def)

text \<open>
  Claim C4. Only the click listener of the toggle creates or overwrites the stored
  preference. Applying a theme, the initial resolution, the whole of \<^verbatim>\<open>initTheme\<close> and
  the change listener (run directly or through the dispatch of a change event) leave both
  stores exactly as they were, in both versions. The click listener leaves the other
  store alone and removes no key from its own: no operation deletes an entry.
\<close>

theorem only_toggle_writes_store:
  "stores (after p (applyTheme s p)) = stores p
   \<and> stores (after p (ss_resolve p)) = stores p
   \<and> stores (after p (ss_initTheme p)) = stores p
   \<and> stores (after p (ss_onChange m p)) = stores p
   \<and> stores (after p (ss_dispatch (Change m) p)) = stores p
   \<and> stores (updateIcon s p) = stores p
   \<and> stores (after p (ls_resolve p)) = stores p
   \<and> stores (after p (ls_initTheme p)) = stores p
   \<and> stores (after p (ls_dispatch (Change m) p)) = stores p
   \<and> localStorage (after p (ss_onClick p)) = localStorage p
   \<and> dom (sessionStorage p) \<subseteq> dom (sessionStorage (after p (ss_onClick p)))
   \<and> sessionStorage (after p (ls_onClick p)) = sessionStorage p
   \<and> dom (localStorage p) \<subseteq> dom (localStorage (after p (ls_onClick p)))"
proof -
  have 1: "stores (after p (ss_dispatch (Change m) p)) = stores p"
    using stores_ss_onChange [of "p\<lparr>mediaMatches := m\<rparr>" m]
    by (auto simp: Let_def after_def stores_def split: sum.splits)
  have 2: "stores (after p (ls_dispatch (Change m) p)) = stores p"
    by (simp add: after_def stores_def)
  show ?thesis
    using 1 2 store_ss_onClick [of p] store_ls_onClick [of p]
    by (simp add: stores_applyTheme stores_ss_resolve stores_ss_initTheme stores_ss_onChange
          stores_updateIcon stores_ls_resolve stores_ls_initTheme)
qed

section \<open>Malformed stored values\<close>

text \<open>
  A stored string that is neither \<^verbatim>\<open>"dark"\<close> nor \<^verbatim>\<open>"light"\<close> is treated by the initial
  resolution as if nothing were stored: classes of the body and icon come out the same as
  on the page with the entry removed, in both versions, and on a page with a body nothing
  is thrown. The sessionStorage version then follows the system preference.
\<close>

lemma malformed_store_as_absent:
  assumes "v \<noteq> ''dark''" and "v \<noteq> ''light''"
  shows "applied (ss_resolve (p\<lparr>sessionStorage := (sessionStorage p)(''theme'' \<mapsto> v)\<rparr>))
           = applied (ss_resolve (p\<lparr>sessionStorage := (sessionStorage p)(''theme'' := None)\<rparr>))
       \<and> applied (ls_resolve (p\<lparr>localStorage := (localStorage p)(''theme'' \<mapsto> v)\<rparr>))
           = applied (ls_resolve (p\<lparr>localStorage := (localStorage p)(''theme'' := None)\<rparr>))
       \<and> (body p \<noteq> None \<longrightarrow>
            (\<exists>q. ss_resolve (p\<lparr>sessionStorage := (sessionStorage p)(''theme'' \<mapsto> v)\<rparr>) = Inr q
                 \<and> dark_theme q = mediaMatches p)
          \<and> (\<exists>q. ls_resolve (p\<lparr>localStorage := (localStorage p)(''theme'' \<mapsto> v)\<rparr>) = Inr q))"
proof (intro conjI impI)
  show "applied (ss_resolve (p\<lparr>sessionStorage := (sessionStorage p)(''theme'' \<mapsto> v)\<rparr>))
           = applied (ss_resolve (p\<lparr>sessionStorage := (sessionStorage p)(''theme'' := None)\<rparr>))"
    using assms
    by (cases "body p") (simp_all add: ss_resolve_eq applyTheme_Some applyTheme_None applied_def)
  show "applied (ls_resolve (p\<lparr>localStorage := (localStorage p)(''theme'' \<mapsto> v)\<rparr>))
           = applied (ls_resolve (p\<lparr>localStorage := (localStorage p)(''theme'' := None)\<rparr>))"
    using assms
    by (cases "body p") (simp_all add: ls_resolve_Some ls_resolve_None applied_def updateIcon_def)
next
  assume "body p \<noteq> None"
  then obtain cl where b: "body p = Some cl" by blast
  show "\<exists>q. ss_resolve (p\<lparr>sessionStorage := (sessionStorage p)(''theme'' \<mapsto> v)\<rparr>) = Inr q
                 \<and> dark_theme q = mediaMatches p"
    using assms b
    by (cases "mediaMatches p")
       (simp_all add: ss_resolve_eq applyTheme_Some dark_theme_Some in_add notin_remove)
  show "\<exists>q. ls_resolve (p\<lparr>localStorage := (localStorage p)(''theme'' \<mapsto> v)\<rparr>) = Inr q"
    using b by (simp add: ls_resolve_Some)
qed

text \<open>
  The localStorage version follows the system preference too, as long as the body does
  not carry the class beforehand.
\<close>

lemma ls_malformed_falls_back:
  assumes "v \<noteq> ''dark''" and "v \<noteq> ''light''" and "body p = Some cl" and "\<not> dark_theme p"
  shows "\<exists>q. ls_resolve (p\<lparr>localStorage := (localStorage p)(''theme'' \<mapsto> v)\<rparr>) = Inr q
           \<and> dark_theme q = mediaMatches p"
  using assms
  by (cases "mediaMatches p")
     (simp_all add: ls_resolve_Some updateIcon_def dark_theme_Some in_add)

text \<open>
  Claim C8. With a malformed value stored, the initial resolution behaves as with nothing
  stored and falls back on the system preference, without error. On a page whose body
  already carries the class, with \<^verbatim>\<open>"blue"\<close> stored and a light system, the
  localStorage version does not fall back: the page stays dark (and shows the moon). The
  sessionStorage version makes the same page light.
\<close>

theorem ls_malformed_store_keeps_dark_flag:
  "localStorage blue_flagged_page ''theme'' = Some ''blue''
   \<and> \<not> mediaMatches blue_flagged_page
   \<and> ls_resolve blue_flagged_page = Inr (blue_flagged_page\<lparr>toggleBtn := Some moon\<rparr>)
   \<and> dark_theme (blue_flagged_page\<lparr>toggleBtn := Some moon\<rparr>)
   \<and> ss_resolve blue_flagged_page
       = Inr (blue_flagged_page\<lparr>body := Some [], toggleBtn := Some moon\<rparr>)
   \<and> \<not> dark_theme (blue_flagged_page\<lparr>body := Some [], toggleBtn := Some moon\<rparr>)"
  by (simp add: blue_flagged_page_def flagged_page_fields ls_resolve_Some ss_resolve_eq
        applyTheme_Some updateIcon_def dark_theme_def cl_defs)

section \<open>The two versions side by side\<close>

text \<open>
  Claim C10. Given the same stored value (absent, \<^verbatim>\<open>"dark"\<close>, \<^verbatim>\<open>"light"\<close> or any other
  string) and the same system preference, on a page whose body does not yet carry the
  class, the initial resolution of the localStorage version and that of the
  sessionStorage version return the same page, hence apply the same theme; it is dark
  exactly when the stored value is \<^verbatim>\<open>"dark"\<close>, or it is not \<^verbatim>\<open>"light"\<close> and the system
  prefers dark.
\<close>

theorem ls_ss_same_initial_state:
  assumes "body p = Some cl" and "\<not> dark_theme p"
    and "localStorage p ''theme'' = sessionStorage p ''theme''"
  shows "ls_resolve p = ss_resolve p
       \<and> (\<exists>q. ss_resolve p = Inr q
              \<and> dark_theme q = (sessionStorage p ''theme'' = Some ''dark''
                   \<or> sessionStorage p ''theme'' \<noteq> Some ''light'' \<and> mediaMatches p))"
proof -
  from assms(1,2) have fresh: "''dark-theme'' \<notin> set cl" by (simp add: dark_theme_Some)
  have "ls_resolve p = ss_resolve p"
    using assms(1,3) fresh
    by (cases "toggleBtn p")
       (auto simp: ls_resolve_Some ss_resolve_eq applyTheme_Some updateIcon_def remove_fresh)
  moreover have "\<exists>q. ss_resolve p = Inr q
              \<and> dark_theme q = (sessionStorage p ''theme'' = Some ''dark''
                   \<or> sessionStorage p ''theme'' \<noteq> Some ''light'' \<and> mediaMatches p)"
    using assms(1)
    by (auto simp: ss_resolve_eq applyTheme_Some dark_theme_Some in_add notin_remove)
  ultimately show ?thesis by blast
qed

theorem ls_ss_same_initial_state_witness:
  "body fresh_page = Some [] \<and> \<not> dark_theme fresh_page
   \<and> localStorage fresh_page ''theme'' = sessionStorage fresh_page ''theme''
   \<and> ls_resolve fresh_page = ss_resolve fresh_page
   \<and> ss_resolve fresh_page = Inr (fresh_page\<lparr>toggleBtn := Some moon\<rparr>)"
proof -
  have b: "body fresh_page = Some []" and l: "\<not> dark_theme fresh_page"
    and e: "localStorage fresh_page ''theme'' = sessionStorage fresh_page ''theme''"
    by (simp_all add: fresh_page_fields)
  have c: "ss_resolve fresh_page = Inr (fresh_page\<lparr>toggleBtn := Some moon\<rparr>)"
    by (simp add: ss_resolve_eq applyTheme_Some [OF b] fresh_page_fields classList_remove_def)
  from b l e c ls_ss_same_initial_state [OF b l e] show ?thesis by blast
qed

section \<open>Pages without a toggle button or without a body\<close>

text \<open>
  Every access to the toggle button is guarded by \<^verbatim>\<open>if (toggleBtn)\<close>; the accesses to the
  body are not guarded. So without a button the theme is still applied to the body, at
  page load and on a change of the system colour scheme; only icon and click listener are
  skipped.
\<close>

text \<open>
  Claim C5, as the code has it. On a page that has a body but no toggle button, no
  operation throws, none writes to a store, none sets an icon, and \<^verbatim>\<open>initTheme\<close>
  registers no click listener, so that a click does nothing. Applying a theme, the
  initial resolution and the change listener still set or clear the class on the body,
  with the same result as on the page with a button.
\<close>

theorem absent_toggle_still_styles:
  assumes "toggleBtn p = None" and "body p = Some cl"
  shows "(\<exists>q q'. applyTheme s p = Inr q \<and> applyTheme s (p\<lparr>toggleBtn := Some h\<rparr>) = Inr q'
            \<and> body q = body q' \<and> dark_theme q = s
            \<and> toggleBtn q = None \<and> clickListener q = clickListener p \<and> stores q = stores p)
       \<and> (\<exists>q q'. ss_initTheme p = Inr q \<and> ss_initTheme (p\<lparr>toggleBtn := Some h\<rparr>) = Inr q'
            \<and> body q = body q'
            \<and> toggleBtn q = None \<and> clickListener q = clickListener p \<and> stores q = stores p
            \<and> (\<not> clickListener p \<longrightarrow> ss_dispatch Click q = Inr q))
       \<and> (\<exists>q q'. ss_onChange m p = Inr q \<and> ss_onChange m (p\<lparr>toggleBtn := Some h\<rparr>) = Inr q'
            \<and> body q = body q'
            \<and> toggleBtn q = None \<and> clickListener q = clickListener p \<and> stores q = stores p)
       \<and> (\<exists>q q'. ls_initTheme p = Inr q \<and> ls_initTheme (p\<lparr>toggleBtn := Some h\<rparr>) = Inr q'
            \<and> body q = body q'
            \<and> toggleBtn q = None \<and> clickListener q = clickListener p \<and> stores q = stores p
            \<and> (\<not> clickListener p \<longrightarrow> ls_dispatch Click q = Inr q))"
proof (intro conjI)
  show "\<exists>q q'. applyTheme s p = Inr q \<and> applyTheme s (p\<lparr>toggleBtn := Some h\<rparr>) = Inr q'
            \<and> body q = body q' \<and> dark_theme q = s
            \<and> toggleBtn q = None \<and> clickListener q = clickListener p \<and> stores q = stores p"
    using assms
    by (cases s) (simp_all add: applyTheme_Some stores_def dark_theme_Some in_add notin_remove)
  show "\<exists>q q'. ss_initTheme p = Inr q \<and> ss_initTheme (p\<lparr>toggleBtn := Some h\<rparr>) = Inr q'
            \<and> body q = body q'
            \<and> toggleBtn q = None \<and> clickListener q = clickListener p \<and> stores q = stores p
            \<and> (\<not> clickListener p \<longrightarrow> ss_dispatch Click q = Inr q)"
    using assms
    by (simp add: ss_initTheme_def ss_resolve_eq applyTheme_Some and_then_def stores_def Let_def)
  show "\<exists>q q'. ss_onChange m p = Inr q \<and> ss_onChange m (p\<lparr>toggleBtn := Some h\<rparr>) = Inr q'
            \<and> body q = body q'
            \<and> toggleBtn q = None \<and> clickListener q = clickListener p \<and> stores q = stores p"
    using assms
    by (simp add: ss_onChange_def applyTheme_Some stores_def)
  show "\<exists>q q'. ls_initTheme p = Inr q \<and> ls_initTheme (p\<lparr>toggleBtn := Some h\<rparr>) = Inr q'
            \<and> body q = body q'
            \<and> toggleBtn q = None \<and> clickListener q = clickListener p \<and> stores q = stores p
            \<and> (\<not> clickListener p \<longrightarrow> ls_dispatch Click q = Inr q)"
    using assms
    by (simp add: ls_initTheme_def ls_resolve_Some and_then_def stores_def updateIcon_def)
qed

theorem absent_toggle_still_styles_witness:
  "toggleBtn bare_page = None \<and> body bare_page = Some [] \<and> \<not> clickListener bare_page
   \<and> (\<exists>q q'. ss_initTheme bare_page = Inr q
          \<and> ss_initTheme (bare_page\<lparr>toggleBtn := Some []\<rparr>) = Inr q'
          \<and> body q = body q' \<and> toggleBtn q = None \<and> stores q = stores bare_page
          \<and> ss_dispatch Click q = Inr q)
   \<and> (\<exists>q q'. ls_initTheme bare_page = Inr q
          \<and> ls_initTheme (bare_page\<lparr>toggleBtn := Some []\<rparr>) = Inr q'
          \<and> body q = body q' \<and> toggleBtn q = None \<and> stores q = stores bare_page
          \<and> ls_dispatch Click q = Inr q)"
proof -
  have t: "toggleBtn bare_page = None" and b: "body bare_page = Some []"
    and c: "\<not> clickListener bare_page"
    by (rule bare_page_fields)+
  from t b c absent_toggle_still_styles [OF t b, of True "[]" True] show ?thesis by blast
qed

text \<open>
  Claim C5, as stated, asks that every operation be a no-op on such a page. It is not:
  on a page without button, on a dark system, \<^verbatim>\<open>initTheme\<close> of either version returns
  normally and has put the class on the body.
\<close>

theorem absent_toggle_counterexample:
  "toggleBtn bare_page = None
   \<and> \<not> dark_theme bare_page
   \<and> ss_initTheme bare_page =
       Inr (bare_page\<lparr>body := Some [''dark-theme''], changeListener := True\<rparr>)
   \<and> dark_theme (after bare_page (ss_initTheme bare_page))
   \<and> ls_initTheme bare_page = Inr (bare_page\<lparr>body := Some [''dark-theme'']\<rparr>)
   \<and> dark_theme (after bare_page (ls_initTheme bare_page))"
  by (simp add: bare_page_fields ss_initTheme_def ss_resolve_eq applyTheme_Some
        ls_initTheme_def ls_resolve_Some updateIcon_def and_then_def after_def Let_def
        dark_theme_def cl_defs)

text \<open>
  A page without a body is another matter: \<^verbatim>\<open>document.body\<close> is \<^verbatim>\<open>null\<close> and the first
  access to \<^verbatim>\<open>body.classList\<close> throws. In the sessionStorage version that is every call of
  \<open>applyTheme\<close>, hence \<^verbatim>\<open>initTheme\<close>; in both versions it is the click listener.
\<close>

lemma null_body_throws:
  assumes "body p = None"
  shows "applyTheme s p = Inl TypeError" and "ss_initTheme p = Inl TypeError"
    and "ss_onClick p = Inl TypeError" and "ls_onClick p = Inl TypeError"
  using assms
  by (simp_all add: applyTheme_None ss_initTheme_def ss_resolve_eq and_then_def
        ss_onClick_None ls_onClick_None)

end
